theory Spec2Isabelle
  imports Complex_Main
begin

section \<open>Numbers, faults and conversions\<close>

text \<open>
  The detector of \<^verbatim>\<open>src/src/wavelet_bpm_detector.h\<close> computes on \<^verbatim>\<open>double\<close> and \<^verbatim>\<open>int\<close>.
  A \<^verbatim>\<open>double\<close> is modelled as the \<open>real\<close> it stands for; infinities and NaNs are not values of
  the model, and the two places where the C++ value would be one are written out
  (\<open>NonFinite\<close> below, and the unused mean of an empty vector). Wherever a \<^verbatim>\<open>double\<close> is
  converted to \<^verbatim>\<open>int\<close> the rounding of the arithmetic before it can change the \<^verbatim>\<open>int\<close>, so
  there the result of each operation is rounded to binary64 (\<open>double_round\<close>); elsewhere the
  sums and products are the exact ones. The size of a vector is taken to fit an \<^verbatim>\<open>int\<close>.

  What the C++ leaves undefined or signals is a value of \<open>error\<close>:
  \<^item> \<open>OutOfBounds\<close>: a read or a store through \<^verbatim>\<open>operator[]\<close> past the end of a vector, or an
    iterator range that does not lie inside its vector;
  \<^item> \<open>DivisionByZero\<close>: an integer division by zero;
  \<^item> \<open>LengthError\<close>: a vector constructed with a negative size;
  \<^item> \<open>NonFinite\<close>: the \<^verbatim>\<open>double\<close> returned is not a number of the real line
    (\<^verbatim>\<open>60.0 / 0\<close>);
  \<^item> \<open>InsufficientData\<close> and \<open>NoData\<close>: the two failures the specification gives to the
    parts of the repository whose code is not among the sources.
\<close>

datatype error =
    InsufficientData
  | NoData
  | OutOfBounds
  | DivisionByZero
  | LengthError
  | NonFinite

text \<open>
  The conversion \<^verbatim>\<open>(int)x\<close> of a \<^verbatim>\<open>double\<close>: truncation towards zero. When the truncated
  value is no \<^verbatim>\<open>int\<close> the C++ standard leaves the result open; the x86-64 conversion
  instruction then gives \<^verbatim>\<open>INT_MIN\<close>, and so does the model.
\<close>

definition to_int :: "real \<Rightarrow> int" where
  "to_int r =
     (let t = (if 0 \<le> r then \<lfloor>r\<rfloor> else \<lceil>r\<rceil>)
      in if - (2 ^ 31) \<le> t \<and> t < 2 ^ 31 then t else - (2 ^ 31))"

text \<open>
  Rounding to binary64, to nearest with ties to even. \<open>binade a\<close> is the exponent \<open>e\<close> of
  the binade \<open>2^e \<le> a < 2^(e+1)\<close>, searched downwards from the largest exponent 1023 and
  stopping at \<open>- 1022\<close>, below which the doubles are subnormal and keep the spacing of that
  binade. The significand has 53 bits, so the doubles of a binade are the multiples of
  \<open>2^(e - 52)\<close>. A sum or product beyond the largest double is not made an infinity; every use
  below converts the result to \<^verbatim>\<open>int\<close>, which is \<^verbatim>\<open>INT_MIN\<close> either way.
\<close>

definition half_even :: "real \<Rightarrow> int" where
  "half_even r =
     (let f = \<lfloor>r\<rfloor>; d = r - real_of_int f
      in if d < 1 / 2 then f else if 1 / 2 < d then f + 1 else if even f then f else f + 1)"

fun binade_from :: "nat \<Rightarrow> int \<Rightarrow> real \<Rightarrow> int" where
  "binade_from 0 e a = e"
| "binade_from (Suc fuel) e a = (if 2 powi e \<le> a then e else binade_from fuel (e - 1) a)"

definition binade :: "real \<Rightarrow> int" where
  "binade a = binade_from 2045 1023 a"

definition double_round :: "real \<Rightarrow> real" where
  "double_round x =
     (let u = 2 powi (binade \<bar>x\<bar> - 52) in real_of_int (half_even (x / u)) * u)"

text \<open>The division of two \<^verbatim>\<open>int\<close>s, which truncates towards zero as well.\<close>

definition int_div :: "int \<Rightarrow> int \<Rightarrow> int" where
  "int_div a b = sgn a * sgn b * (\<bar>a\<bar> div \<bar>b\<bar>)"

text \<open>\<^verbatim>\<open>DBL_MIN\<close> of \<^verbatim>\<open><cfloat>\<close>: the least positive normalised \<^verbatim>\<open>double\<close>.\<close>

definition DBL_MIN :: real where
  "DBL_MIN = 1 / 2 ^ 1022"

section \<open>The private helpers of \<^verbatim>\<open>WaveletBPMDetector\<close>\<close>

subsection \<open>\<^verbatim>\<open>undersample\<close>\<close>

text \<open>
  \<^verbatim>\<open>
  int length = data.size();
  std::vector<double> result(length / pace);
  for (int i = 0, j = 0; i < length; ++i, j += pace) {
      result[i] = data[i];
  }
  return result;
  \<close>
  The loop state is the vector \<open>us_result\<close> and the stride variable \<open>us_j\<close>, which is
  advanced and never read. \<^verbatim>\<open>operator[]\<close> does not check its index: a store
  \<^verbatim>\<open>result[i] = data[i]\<close> whose index is not below \<^verbatim>\<open>result.size()\<close> writes behind the
  allocation (through a null pointer when \<^verbatim>\<open>result\<close> is empty), which is undefined
  behaviour. The iteration that makes such a store is the fault \<open>OutOfBounds\<close>, and nothing
  is returned.
\<close>

record us_state =
  us_result :: "real list"
  us_j :: int

definition undersample_step :: "real list \<Rightarrow> int \<Rightarrow> us_state \<Rightarrow> nat \<Rightarrow> error + us_state" where
  "undersample_step data pace st i =
     (if i < length (us_result st)
      then Inr (st\<lparr>us_result := (us_result st)[i := data ! i], us_j := us_j st + pace\<rparr>)
      else Inl OutOfBounds)"

text \<open>The first \<open>m\<close> iterations of the loop, on a \<^verbatim>\<open>result\<close> of \<open>r\<close> zeros.\<close>

definition undersample_run :: "real list \<Rightarrow> int \<Rightarrow> nat \<Rightarrow> nat \<Rightarrow> error + us_state" where
  "undersample_run data pace r m =
     foldl (\<lambda>s i. case s of Inl e \<Rightarrow> Inl e | Inr st \<Rightarrow> undersample_step data pace st i)
       (Inr \<lparr>us_result = replicate r 0, us_j = 0\<rparr>) [0..<m]"

definition undersample :: "real list \<Rightarrow> int \<Rightarrow> error + real list" where
  "undersample data pace =
     (let len = int (length data) in
      if pace = 0 then Inl DivisionByZero
      else if int_div len pace < 0 then Inl LengthError
      else case undersample_run data pace (nat (int_div len pace)) (length data) of
             Inl e \<Rightarrow> Inl e
           | Inr st \<Rightarrow> Inr (us_result st))"

subsection \<open>\<^verbatim>\<open>abs\<close>, \<^verbatim>\<open>normalize\<close>, \<^verbatim>\<open>add\<close>\<close>

text \<open>
  \<^verbatim>\<open>abs\<close> and \<^verbatim>\<open>normalize\<close> change their argument in place and return a copy of it; every
  caller assigns the copy and never reads the argument again, so each is a function from
  the old contents to the new.
\<close>

definition abs_vec :: "real list \<Rightarrow> real list" where
  "abs_vec data = map (\<lambda>v. \<bar>v\<bar>) data"

text \<open>
  \<^verbatim>\<open>std::accumulate(data.begin(), data.end(), 0)\<close>: the accumulator has the type of the seed
  \<^verbatim>\<open>0\<close>, an \<^verbatim>\<open>int\<close>, so every step computes \<^verbatim>\<open>init + x\<close> as a \<^verbatim>\<open>double\<close>, rounded, and
  converts it back to \<^verbatim>\<open>int\<close>.
\<close>

fun accumulate_int :: "real list \<Rightarrow> int \<Rightarrow> int" where
  "accumulate_int [] init = init"
| "accumulate_int (x # xs) init =
     accumulate_int xs (to_int (double_round (real_of_int init + x)))"

text \<open>
  For an empty vector the C++ mean is \<^verbatim>\<open>0 / 0.0\<close>, a NaN that no element is there to
  receive; the \<open>map\<close> below does not use the mean then either.
\<close>

definition normalize_vec :: "real list \<Rightarrow> real list" where
  "normalize_vec data =
     (let mean = real_of_int (accumulate_int data 0) / real (length data)
      in map (\<lambda>v. v - mean) data)"

text \<open>
  \<^verbatim>\<open>for (i = 0; i < data.size(); ++i) data[i] += plus[i];\<close> reads \<^verbatim>\<open>plus\<close> at every index
  of \<^verbatim>\<open>data\<close>: a shorter \<^verbatim>\<open>plus\<close> is read past its end.
\<close>

definition add :: "real list \<Rightarrow> real list \<Rightarrow> error + real list" where
  "add data plus' =
     (if length plus' < length data then Inl OutOfBounds
      else Inr (foldl (\<lambda>d i. d[i := d ! i + plus' ! i]) data [0..<length data]))"

subsection \<open>\<^verbatim>\<open>correlate\<close>\<close>

text \<open>
  The two nested loops, each with its bound as an argument: \<open>correlate_inner data k c m\<close>
  runs \<^verbatim>\<open>i\<close> over \<open>0..<m\<close> on the vector \<open>c\<close>, \<open>correlate_outer data m\<close> runs \<^verbatim>\<open>k\<close> over
  \<open>0..<m\<close> from \<^verbatim>\<open>correlation(n, 0)\<close>. The source runs both to \<^verbatim>\<open>n = data.size()\<close>.
\<close>

definition correlate_inner :: "real list \<Rightarrow> nat \<Rightarrow> real list \<Rightarrow> nat \<Rightarrow> real list" where
  "correlate_inner data k c m =
     foldl (\<lambda>c i. if k + i < length data then c[k := c ! k + data ! i * data ! (k + i)] else c)
       c [0..<m]"

definition correlate_outer :: "real list \<Rightarrow> nat \<Rightarrow> real list" where
  "correlate_outer data m =
     foldl (\<lambda>correlation k. correlate_inner data k correlation (length data))
       (replicate (length data) 0) [0..<m]"

definition correlate :: "real list \<Rightarrow> real list" where
  "correlate data = correlate_outer data (length data)"

subsection \<open>\<^verbatim>\<open>detectPeak\<close>\<close>

text \<open>\<open>find_first data v i\<close>: the index, counted from \<open>i\<close>, of the first element equal to \<open>v\<close>.\<close>

fun find_first :: "real list \<Rightarrow> real \<Rightarrow> nat \<Rightarrow> nat option" where
  "find_first [] v i = None"
| "find_first (x # xs) v i = (if x = v then Some i else find_first xs v (Suc i))"

text \<open>
  \<^verbatim>\<open>
  double max = DBL_MIN;
  for (double x : data) max = std::max(max, std::abs(x));
  for (i = 0; i < data.size(); ++i) if (data[i] == max) return i;
  for (i = 0; i < data.size(); ++i) if (data[i] == -max) return i;
  return -1;
  \<close>
\<close>

definition peak_max :: "real list \<Rightarrow> real" where
  "peak_max data = foldl (\<lambda>m x. max m \<bar>x\<bar>) DBL_MIN data"

definition detectPeak :: "real list \<Rightarrow> int" where
  "detectPeak data =
     (case find_first data (peak_max data) 0 of
        Some i \<Rightarrow> int i
      | None \<Rightarrow> (case find_first data (- peak_max data) 0 of Some i \<Rightarrow> int i | None \<Rightarrow> - 1))"

text \<open>
  The peak as section 4.5 of the specification words it, for comparison with the source:
  \<open>m\<close> is the maximum of \<open>|y[k]|\<close> over the range; the result is the first \<open>k\<close> with
  \<open>y[k] = m\<close>, if there is none the first \<open>k\<close> with \<open>y[k] = - m\<close>, and the sentinel \<open>- 1\<close>
  for the empty range.
\<close>

definition abs_max :: "real list \<Rightarrow> real" where
  "abs_max y = foldl (\<lambda>m x. max m \<bar>x\<bar>) 0 y"

definition detectPeak_spec :: "real list \<Rightarrow> int" where
  "detectPeak_spec y =
     (case find_first y (abs_max y) 0 of
        Some k \<Rightarrow> int k
      | None \<Rightarrow> (case find_first y (- abs_max y) 0 of Some k \<Rightarrow> int k | None \<Rightarrow> - 1))"

section \<open>\<^verbatim>\<open>computeWindowBpm\<close>\<close>

text \<open>
  A decomposition level is the pair of \<^verbatim>\<open>daubechies8.h\<close>: \<^verbatim>\<open>first\<close> the approximation,
  \<^verbatim>\<open>second\<close> the detail coefficients.
\<close>

type_synonym decomposition = "real list \<times> real list"

text \<open>
  The loop over the levels, \<open>remaining\<close> iterations from level \<open>loop\<close> on:
  \<^verbatim>\<open>
  dC = undersample(decomp[loop].second, pace);
  dC = abs(dC);
  dC = normalize(dC);
  if (loop == 0) dCSum = dC; else add(dCSum, dC);
  pace >>= 1;
  \<close>
  \<^verbatim>\<open>decomp[loop]\<close> is a read past the end when the decomposition has too few levels.
\<close>

fun envelope_loop ::
  "decomposition list \<Rightarrow> nat \<Rightarrow> nat \<Rightarrow> int \<Rightarrow> real list \<Rightarrow> error + real list" where
  "envelope_loop decomp loop 0 pace dCSum = Inr dCSum"
| "envelope_loop decomp loop (Suc remaining) pace dCSum =
     (if length decomp \<le> loop then Inl OutOfBounds
      else case undersample (snd (decomp ! loop)) pace of
        Inl e \<Rightarrow> Inl e
      | Inr result \<Rightarrow>
          (let dC = normalize_vec (abs_vec result) in
           case (if loop = 0 then Inr dC else add dCSum dC) of
             Inl e \<Rightarrow> Inl e
           | Inr dCSum' \<Rightarrow> envelope_loop decomp (Suc loop) remaining (pace div 2) dCSum'))"

text \<open>\<^verbatim>\<open>int dCMinLength = int(decomp[0].second.size() / maxDecimation) + 1;\<close>\<close>

definition dCMinLength :: "decomposition list \<Rightarrow> int" where
  "dCMinLength decomp = to_int (real (length (snd (decomp ! 0))) / 8) + 1"

text \<open>
  Lines 56 to 83: \<^verbatim>\<open>dCSum\<close> as it stands when the autocorrelation is taken. The vector is
  allocated with \<^verbatim>\<open>dCMinLength\<close> zeros, the four levels are summed into it, and the
  envelope of the last approximation is added.
\<close>

definition compositeEnvelope :: "decomposition list \<Rightarrow> error + real list" where
  "compositeEnvelope decomp =
     (let levels = 4; pace = 8 in
      if length decomp \<le> 0 then Inl OutOfBounds
      else
        case envelope_loop decomp 0 levels pace (replicate (nat (dCMinLength decomp)) 0) of
          Inl e \<Rightarrow> Inl e
        | Inr dCSum \<Rightarrow>
            if length decomp \<le> levels - 1 then Inl OutOfBounds
            else add dCSum (normalize_vec (abs_vec (fst (decomp ! (levels - 1))))))"

text \<open>
  \<^verbatim>\<open>
  int minIndex = (int)(60.0 / 220.0 * sampleRate / maxDecimation);
  int maxIndex = (int)(60.0 / 40.0 * sampleRate / maxDecimation);
  \<close>
  with \<^verbatim>\<open>maxDecimation = exp2(levels - 1) = 8\<close>. Each is a quotient, a product and a quotient
  of \<^verbatim>\<open>double\<close>s, rounded one after the other, and then converted. The member
  \<^verbatim>\<open>sampleRate\<close> is whatever \<^verbatim>\<open>double\<close> the constructor was given (\<^verbatim>\<open>sampleRate = rate\<close>,
  with no check): it is the argument \<open>sampleRate\<close> of the functions below.
\<close>

definition minIndex :: "real \<Rightarrow> int" where
  "minIndex sampleRate =
     to_int (double_round (double_round (double_round (60 / 220) * sampleRate) / 8))"

definition maxIndex :: "real \<Rightarrow> int" where
  "maxIndex sampleRate =
     to_int (double_round (double_round (double_round (60 / 40) * sampleRate) / 8))"

text \<open>
  Lines 85 to 95: autocorrelation, the copy of the lags \<open>minIndex..<maxIndex\<close>, the peak and
  the tempo. The copy is defined when \<open>0 \<le> minIndex \<le> maxIndex \<le> correlated.size()\<close>.
  A lag \<^verbatim>\<open>realLocation\<close> of zero makes \<^verbatim>\<open>60.0 / realLocation\<close> an infinity.
\<close>

definition bpmOfEnvelope :: "real \<Rightarrow> real list \<Rightarrow> error + real" where
  "bpmOfEnvelope sampleRate dCSum =
     (let correlated = correlate dCSum in
      if minIndex sampleRate < 0 \<or> maxIndex sampleRate < minIndex sampleRate
         \<or> int (length correlated) < maxIndex sampleRate
      then Inl OutOfBounds
      else
        let correlatedTmp =
              take (nat (maxIndex sampleRate - minIndex sampleRate))
                (drop (nat (minIndex sampleRate)) correlated);
            location = detectPeak correlatedTmp;
            realLocation = minIndex sampleRate + location
        in if realLocation = 0 then Inl NonFinite
           else Inr (60 / real_of_int realLocation * (sampleRate / 8)))"

text \<open>\<^verbatim>\<open>computeWindowBpm\<close> from line 56 on, given what \<^verbatim>\<open>wavelet.decompose\<close> returned.\<close>

definition computeWindowBpm_from :: "real \<Rightarrow> decomposition list \<Rightarrow> error + real" where
  "computeWindowBpm_from sampleRate decomp =
     (case compositeEnvelope decomp of
        Inl e \<Rightarrow> Inl e
      | Inr dCSum \<Rightarrow> bpmOfEnvelope sampleRate dCSum)"

section \<open>The decomposition and the whole window\<close>

text \<open>
  Modelled from the spec: \<^verbatim>\<open>Daubechies8::decompose\<close>. The header \<^verbatim>\<open>daubechies8.h\<close> is not
  among the sources, so the cascade is written from section 4.1 of the specification: each
  level filters the current approximation into an approximation and a detail sequence, the
  next level works on the approximation, and the decomposition "fails with
  \<open>InsufficientData\<close> if the input length cannot support 4 successive halvings without
  producing an empty sequence". The specification fixes neither the filter coefficients
  nor the treatment of the edges, so one level of the filter bank is the parameter \<open>bank\<close>.
\<close>

type_synonym filter_bank = "real list \<Rightarrow> decomposition"

fun halvings_possible :: "nat \<Rightarrow> nat \<Rightarrow> bool" where
  "halvings_possible n 0 = True"
| "halvings_possible n (Suc levels) = (0 < n div 2 \<and> halvings_possible (n div 2) levels)"

fun cascade :: "filter_bank \<Rightarrow> real list \<Rightarrow> nat \<Rightarrow> decomposition list" where
  "cascade bank approximation 0 = []"
| "cascade bank approximation (Suc levels) =
     bank approximation # cascade bank (fst (bank approximation)) levels"

definition decompose :: "filter_bank \<Rightarrow> real list \<Rightarrow> nat \<Rightarrow> error + decomposition list" where
  "decompose bank samples levels =
     (if halvings_possible (length samples) levels then Inr (cascade bank samples levels)
      else Inl InsufficientData)"

text \<open>
  \<^verbatim>\<open>computeWindowBpm\<close>: the call \<^verbatim>\<open>wavelet.decompose(data, levels)\<close> with \<^verbatim>\<open>levels = 4\<close>, whose
  failure leaves the function at once (the source has no handler), then lines 56 to 95.
\<close>

definition computeWindowBpm :: "filter_bank \<Rightarrow> real \<Rightarrow> real list \<Rightarrow> error + real" where
  "computeWindowBpm bank sampleRate data =
     (case decompose bank data 4 of
        Inl e \<Rightarrow> Inl e
      | Inr decomp \<Rightarrow> computeWindowBpm_from sampleRate decomp)"

section \<open>The median of the history\<close>

text \<open>
  Modelled from the spec: \<^verbatim>\<open>currentEstimate\<close>. The class comment of the detector says that
  the tempo "is returned as the median of the windows values", but neither the history nor
  the median is in the class or elsewhere among the sources. Section 4.6 of the
  specification: "returns the median of BpmHistory. For odd count, the middle value of the
  sorted copy; for even count, the arithmetic mean of the two central values. Fails with
  \<open>NoData\<close> if history is empty."
\<close>

definition currentEstimate :: "real list \<Rightarrow> error + real" where
  "currentEstimate history =
     (let sorted_copy = sort history; n = length sorted_copy in
      if n = 0 then Inl NoData
      else if odd n then Inr (sorted_copy ! (n div 2))
      else Inr ((sorted_copy ! (n div 2 - 1) + sorted_copy ! (n div 2)) / 2))"

section \<open>The constructor of \<^verbatim>\<open>audio_data\<close>\<close>

text \<open>
  \<^verbatim>\<open>src/audio_data.cpp\<close>. The constructor talks to ALSA; what it does depends on what the
  calls answer, so the answers are its input: the return codes of \<^verbatim>\<open>snd_pcm_open\<close>,
  \<^verbatim>\<open>snd_pcm_hw_params\<close> and \<^verbatim>\<open>snd_pcm_prepare\<close> (the only three it inspects), and the
  format, rate, period size and channel count that the \<^verbatim>\<open>get\<close> calls store. The value of
  the member \<^verbatim>\<open>format\<close> before the \<^verbatim>\<open>switch\<close> comes from \<^verbatim>\<open>audio_data.h\<close>, which is not among
  the sources: it is the argument \<open>format0\<close>.
\<close>

datatype pcm_format =
    SND_PCM_FORMAT_S8 | SND_PCM_FORMAT_U8
  | SND_PCM_FORMAT_S16_LE | SND_PCM_FORMAT_S16_BE | SND_PCM_FORMAT_U16_LE | SND_PCM_FORMAT_U16_BE
  | SND_PCM_FORMAT_S24_LE | SND_PCM_FORMAT_S24_BE | SND_PCM_FORMAT_U24_LE | SND_PCM_FORMAT_U24_BE
  | SND_PCM_FORMAT_S32_LE | SND_PCM_FORMAT_S32_BE | SND_PCM_FORMAT_U32_LE | SND_PCM_FORMAT_U32_BE
  | SND_PCM_FORMAT_other

record alsa_answers =
  open_err :: int
  hw_params_err :: int
  prepare_err :: int
  got_format :: pcm_format
  got_rate :: nat
  got_frames :: nat
  got_channels :: nat

record audio_members =
  ad_format :: int
  ad_rate :: nat
  ad_frames :: nat
  ad_channels :: nat

text \<open>The line written to \<^verbatim>\<open>stderr\<close> before \<^verbatim>\<open>exit\<close>, with the ALSA code it prints.\<close>

datatype diagnostic =
    ErrorOpeningStream int
  | UnableToSetHwParameters int
  | CannotPrepareAudioInterface int
  | CouldNotGetRateOrFormat

text \<open>
  The constructor either returns, with the members set, or calls \<^verbatim>\<open>exit\<close>, which ends the
  process with the given status. It has no third way out: no error value reaches its caller.
\<close>

datatype outcome =
    Constructed audio_members
  | ProcessExit int diagnostic

definition EXIT_FAILURE :: int where
  "EXIT_FAILURE = 1"

fun format_bits :: "int \<Rightarrow> pcm_format \<Rightarrow> int" where
  "format_bits format0 SND_PCM_FORMAT_S8 = 8"
| "format_bits format0 SND_PCM_FORMAT_U8 = 8"
| "format_bits format0 SND_PCM_FORMAT_S16_LE = 16"
| "format_bits format0 SND_PCM_FORMAT_S16_BE = 16"
| "format_bits format0 SND_PCM_FORMAT_U16_LE = 16"
| "format_bits format0 SND_PCM_FORMAT_U16_BE = 16"
| "format_bits format0 SND_PCM_FORMAT_S24_LE = 24"
| "format_bits format0 SND_PCM_FORMAT_S24_BE = 24"
| "format_bits format0 SND_PCM_FORMAT_U24_LE = 24"
| "format_bits format0 SND_PCM_FORMAT_U24_BE = 24"
| "format_bits format0 SND_PCM_FORMAT_S32_LE = 32"
| "format_bits format0 SND_PCM_FORMAT_S32_BE = 32"
| "format_bits format0 SND_PCM_FORMAT_U32_LE = 32"
| "format_bits format0 SND_PCM_FORMAT_U32_BE = 32"
| "format_bits format0 SND_PCM_FORMAT_other = format0"

definition audio_data :: "int \<Rightarrow> alsa_answers \<Rightarrow> outcome" where
  "audio_data format0 alsa =
     (if open_err alsa < 0
      then ProcessExit EXIT_FAILURE (ErrorOpeningStream (open_err alsa))
      else if hw_params_err alsa < 0
      then ProcessExit EXIT_FAILURE (UnableToSetHwParameters (hw_params_err alsa))
      else if prepare_err alsa < 0
      then ProcessExit EXIT_FAILURE (CannotPrepareAudioInterface (prepare_err alsa))
      else if format_bits format0 (got_format alsa) = - 1 \<or> got_rate alsa = 0
      then ProcessExit EXIT_FAILURE CouldNotGetRateOrFormat
      else Constructed
             \<lparr>ad_format = format_bits format0 (got_format alsa), ad_rate = got_rate alsa,
              ad_frames = got_frames alsa, ad_channels = got_channels alsa\<rparr>)"

text \<open>Whether an outcome is the end of the process.\<close>

fun terminates_process :: "outcome \<Rightarrow> bool" where
  "terminates_process (ProcessExit status d) = True"
| "terminates_process (Constructed members) = False"


section \<open>Results about the helpers\<close>

subsection \<open>Autocorrelation\<close>

lemma correlate_inner_Suc:
  "correlate_inner data k c (Suc m) =
     (let c' = correlate_inner data k c m in
      if k + m < length data then c'[k := c' ! k + data ! m * data ! (k + m)] else c')"
  by (simp add: correlate_inner_def Let_def)

lemma correlate_inner_length: "length (correlate_inner data k c m) = length c"
  by (induction m) (simp_all add: correlate_inner_Suc Let_def, simp add: correlate_inner_def)

lemma correlate_inner_sum:
  assumes "k < length c"
  shows "correlate_inner data k c m =
           c[k := c ! k + (\<Sum>i = 0..<min m (length data - k). data ! i * data ! (i + k))]"
proof (induction m)
  case 0
  show ?case by (simp add: correlate_inner_def)
next
  case (Suc m)
  show ?case
  proof (cases "k + m < length data")
    case True
    then have "min (Suc m) (length data - k) = Suc m" "min m (length data - k) = m"
      by auto
    with True Suc assms show ?thesis
      by (simp add: correlate_inner_Suc Let_def ac_simps)
  next
    case False
    then have "min (Suc m) (length data - k) = min m (length data - k)"
      by auto
    with False Suc show ?thesis
      by (simp add: correlate_inner_Suc Let_def)
  qed
qed

lemma correlate_outer_length: "length (correlate_outer data m) = length data"
  by (induction m) (simp_all add: correlate_outer_def correlate_inner_length)

lemma correlate_outer_nth:
  assumes "m \<le> length data" "k < length data"
  shows "correlate_outer data m ! k =
           (if k < m then (\<Sum>i = 0..<length data - k. data ! i * data ! (i + k)) else 0)"
  using assms
proof (induction m)
  case 0
  then show ?case by (simp add: correlate_outer_def)
next
  case (Suc m)
  have step: "correlate_outer data (Suc m) =
      correlate_inner data m (correlate_outer data m) (length data)"
    by (simp add: correlate_outer_def)
  have len: "m < length (correlate_outer data m)"
    using Suc.prems by (simp add: correlate_outer_length)
  have ih: "correlate_outer data m ! k =
      (if k < m then (\<Sum>i = 0..<length data - k. data ! i * data ! (i + k)) else 0)"
    using Suc by simp
  show ?case
  proof (cases "k = m")
    case True
    with ih len show ?thesis
      by (simp add: step correlate_inner_sum)
  next
    case False
    with ih len show ?thesis
      by (auto simp add: step correlate_inner_sum)
  qed
qed

lemma correlate_length: "length (correlate y) = length y"
  by (simp add: correlate_def correlate_outer_length)

lemma correlate_nth:
  "k < length y \<Longrightarrow> correlate y ! k = (\<Sum>i = 0..<length y - k. y ! i * y ! (i + k))"
  by (simp add: correlate_def correlate_outer_nth)

lemma correlate_zeros: "correlate (replicate n 0) = replicate n 0"
  by (rule nth_equalityI) (simp_all add: correlate_length correlate_nth)

text \<open>
  Claim C4. The autocorrelation of an input \<open>x\<close> of length \<open>n\<close> has length \<open>n\<close>, and its entry
  at lag \<open>k < n\<close> is the sum of \<open>x[i] * x[i+k]\<close> over all \<open>i\<close> with \<open>i + k < n\<close>. So an all-zero
  input of any length gives an all-zero output, and \<open>[1,0,0,0]\<close> gives \<open>[1,0,0,0]\<close>.
\<close>

theorem correlate_is_autocorrelation:
  "length (correlate x) = length x
   \<and> (\<forall>k < length x. correlate x ! k = (\<Sum>i = 0..<length x - k. x ! i * x ! (i + k)))
   \<and> correlate (replicate n 0) = replicate n 0
   \<and> correlate [1, 0, 0, 0] = [1, 0, 0, 0]"
proof -
  have "correlate [1, 0, 0, 0] = [1, 0, 0, 0]"
    by (simp add: correlate_def correlate_outer_def correlate_inner_def eval_nat_numeral)
  then show ?thesis
    by (simp add: correlate_length correlate_nth correlate_zeros)
qed

theorem correlate_is_autocorrelation_witness:
  "length (correlate [1, 2, 3]) = 3
   \<and> correlate [1, 2, 3] ! 0 = 14 \<and> correlate [1, 2, 3] ! 1 = 8 \<and> correlate [1, 2, 3] ! 2 = 3"
proof -
  note t = correlate_is_autocorrelation [of "[1, 2, 3]" 0]
  from t have len: "length (correlate [1, 2, 3]) = 3"
    by simp
  from t have nth: "\<forall>k < length [1, 2, 3 :: real].
      correlate [1, 2, 3] ! k
        = (\<Sum>i = 0..<length [1, 2, 3 :: real] - k. [1, 2, 3] ! i * [1, 2, 3] ! (i + k))"
    by blast
  from nth have "correlate [1, 2, 3] ! 0 = 14"
    by (simp add: eval_nat_numeral)
  moreover from nth have "correlate [1, 2, 3] ! 1 = 8"
    by (simp add: eval_nat_numeral)
  moreover from nth have "correlate [1, 2, 3] ! 2 = 3"
    by (simp add: eval_nat_numeral)
  ultimately show ?thesis using len by simp
qed

subsection \<open>Rounding and conversion\<close>

text \<open>
  The binade of a number is found by its two bounds, so that a rounding is computed from
  one floor. The quotient \<^verbatim>\<open>60.0 / 220.0\<close> is not \<open>3/11\<close> but the double below it.
\<close>

lemma binade_from_eq:
  "k \<le> e \<Longrightarrow> nat (e - k) \<le> fuel \<Longrightarrow> 2 powi k \<le> a \<Longrightarrow> a < 2 powi (k + 1)
     \<Longrightarrow> binade_from fuel e a = k"
proof (induction fuel arbitrary: e)
  case 0
  then show ?case by simp
next
  case (Suc fuel)
  show ?case
  proof (cases "e = k")
    case True
    with Suc.prems show ?thesis by simp
  next
    case False
    with Suc.prems have lt: "k + 1 \<le> e"
      by simp
    have "(2::real) powi (k + 1) \<le> 2 powi e"
      using lt by (intro power_int_increasing) simp_all
    with Suc.prems have "\<not> 2 powi e \<le> a"
      by simp
    moreover have "binade_from fuel (e - 1) a = k"
      using Suc.prems lt by (intro Suc.IH) simp_all
    ultimately show ?thesis by simp
  qed
qed

lemma binade_eq:
  "- 1022 \<le> k \<Longrightarrow> k \<le> 1023 \<Longrightarrow> 2 powi k \<le> a \<Longrightarrow> a < 2 powi (k + 1) \<Longrightarrow> binade a = k"
  unfolding binade_def by (rule binade_from_eq) simp_all

lemma binade_from_below:
  "a < 2 powi (e - int fuel) \<Longrightarrow> binade_from fuel e a = e - int fuel"
proof (induction fuel arbitrary: e)
  case 0
  then show ?case by simp
next
  case (Suc fuel)
  have "(2::real) powi (e - int (Suc fuel)) \<le> 2 powi e"
    by (intro power_int_increasing) simp_all
  with Suc.prems have "\<not> 2 powi e \<le> a"
    by simp
  moreover have "binade_from fuel (e - 1) a = e - 1 - int fuel"
    using Suc.prems by (intro Suc.IH) (simp add: algebra_simps)
  ultimately show ?case
    by simp
qed

lemma binade_subnormal: "a < 2 powi (- 1022) \<Longrightarrow> binade a = - 1022"
  unfolding binade_def using binade_from_below [of a 1023 2045] by simp

lemma double_round_0: "double_round 0 = 0"
  by (simp add: double_round_def half_even_def)

lemma double_round_binade:
  assumes "- 1022 \<le> k" "k \<le> 1023" "2 powi k \<le> \<bar>x\<bar>" "\<bar>x\<bar> < 2 powi (k + 1)"
  shows "double_round x = real_of_int (half_even (x / 2 powi (k - 52))) * 2 powi (k - 52)"
  using binade_eq [OF assms] by (simp add: double_round_def Let_def)

lemma half_even_of_int: "half_even (real_of_int n) = n"
  by (simp add: half_even_def)

lemma sixty_over_220: "double_round (60 / 220) = 1228254443828317 / 4503599627370496"
  by (subst double_round_binade [of "- 2"]) (simp_all add: half_even_def power_int_minus field_simps)



lemma double_round_half: "double_round (1 / 2) = 1 / 2"
  by (subst double_round_binade [of "- 1"]) (simp_all add: half_even_def power_int_minus field_simps)

subsection \<open>Downsampling\<close>

text \<open>
  The loop runs inside \<^verbatim>\<open>result\<close> for its first \<open>r\<close> iterations, copying the first \<open>r\<close>
  samples in a row, and leaves it at iteration \<open>r\<close>. With a positive pace that happens
  whenever \<open>length div pace\<close> is less than the length, that is for every non-empty
  input and every pace from 2 on.
\<close>

lemma int_div_nonneg: "0 < pace \<Longrightarrow> int_div (int n) pace = int (n div nat pace)"
  by (cases "n = 0") (simp_all add: int_div_def zdiv_int)

lemma undersample_run_Suc:
  "undersample_run data pace r (Suc m) =
     (case undersample_run data pace r m of
        Inl e \<Rightarrow> Inl e
      | Inr st \<Rightarrow> undersample_step data pace st m)"
  by (simp add: undersample_run_def)

lemma undersample_run_inside:
  "m \<le> r \<Longrightarrow> m \<le> length data \<Longrightarrow>
   undersample_run data pace r m =
     Inr \<lparr>us_result = take m data @ replicate (r - m) 0, us_j = int m * pace\<rparr>"
proof (induction m)
  case 0
  show ?case by (simp add: undersample_run_def)
next
  case (Suc m)
  then have ih: "undersample_run data pace r m =
     Inr \<lparr>us_result = take m data @ replicate (r - m) 0, us_j = int m * pace\<rparr>"
    and m: "m < length data" "m < r"
    by simp_all
  from m obtain d where d: "r - m = Suc d" "r - Suc m = d"
    by (cases "r - m") auto
  have "(take m data @ replicate (Suc d) 0)[m := data ! m]
      = take (Suc m) data @ replicate d 0"
    using m by (simp add: list_update_append take_Suc_conv_app_nth)
  with m show ?case
    by (simp add: undersample_run_Suc ih undersample_step_def d algebra_simps)
qed

lemma undersample_run_outside:
  "r < m \<Longrightarrow> r \<le> length data \<Longrightarrow> undersample_run data pace r m = Inl OutOfBounds"
proof (induction m)
  case 0
  then show ?case by simp
next
  case (Suc m)
  show ?case
  proof (cases "r = m")
    case True
    with Suc.prems undersample_run_inside [of m r data pace] show ?thesis
      by (simp add: undersample_run_Suc undersample_step_def)
  next
    case False
    with Suc have "undersample_run data pace r m = Inl OutOfBounds"
      by simp
    then show ?thesis
      by (simp add: undersample_run_Suc)
  qed
qed

lemma undersample_eq:
  assumes "0 < pace"
  shows "undersample data pace =
     (if length data div nat pace < length data then Inl OutOfBounds else Inr data)"
proof -
  have le: "length data div nat pace \<le> length data"
    by (rule div_le_dividend)
  have u: "undersample data pace =
      (case undersample_run data pace (length data div nat pace) (length data) of
         Inl e \<Rightarrow> Inl e | Inr st \<Rightarrow> Inr (us_result st))"
    using assms by (simp add: undersample_def int_div_nonneg Let_def)
  show ?thesis
  proof (cases "length data div nat pace < length data")
    case True
    with le show ?thesis
      by (simp add: u undersample_run_outside)
  next
    case False
    with le have "length data div nat pace = length data"
      by arith
    then show ?thesis
      by (simp add: u undersample_run_inside)
  qed
qed

lemma undersample_overflows:
  assumes "data \<noteq> []" "2 \<le> pace"
  shows "undersample data pace = Inl OutOfBounds"
proof -
  from assms have "length data div nat pace < length data"
    by (intro div_less_dividend) auto
  with assms show ?thesis
    by (simp add: undersample_eq)
qed

lemma undersample_Nil: "0 < pace \<Longrightarrow> undersample [] pace = Inr []"
  by (simp add: undersample_eq)

lemma undersample_pace_1: "undersample data 1 = Inr data"
  by (simp add: undersample_eq)

text \<open>
  Claim C1. The claim: downsampling is strided decimation, the output has length
  \<open>len div pace\<close> and \<open>output[i] = input[i * pace]\<close>, so \<open>[1,2,3,4,5,6]\<close> with pace 2 gives
  \<open>[1,3,5]\<close>. The code on that input: \<^verbatim>\<open>result\<close> has 3 elements, the first three
  iterations fill it with the first three samples in a row, \<open>[1,2,3]\<close>, while the stride
  variable reaches 6 without being read; the fourth iteration stores at index 3, past the
  end, and no vector is returned.
\<close>

theorem undersample_copies_prefix:
  "undersample_run [1, 2, 3, 4, 5, 6] 2 3 3 = Inr \<lparr>us_result = [1, 2, 3], us_j = 6\<rparr>
   \<and> undersample_run [1, 2, 3, 4, 5, 6] 2 3 4 = Inl OutOfBounds
   \<and> undersample [1, 2, 3, 4, 5, 6] 2 = Inl OutOfBounds"
  by (simp add: undersample_run_inside undersample_run_outside undersample_overflows)

text \<open>
  Claim C10. The claim: every store \<^verbatim>\<open>result[i] = data[i]\<close> has its index below
  \<open>L div p\<close>, the size of \<^verbatim>\<open>result\<close>. The code on the input \<open>[1,2]\<close> with pace 2: \<^verbatim>\<open>result\<close> has
  one element, the first iteration fills it, and the second stores at index 1, past the end.
\<close>

theorem undersample_stores_past_end:
  "undersample_run [1, 2] 2 1 1 = Inr \<lparr>us_result = [1], us_j = 2\<rparr>
   \<and> undersample_run [1, 2] 2 1 2 = Inl OutOfBounds
   \<and> undersample [1, 2] 2 = Inl OutOfBounds"
  by (simp add: undersample_run_inside undersample_run_outside undersample_overflows)

subsection \<open>Normalisation\<close>

text \<open>
  Claim C2. The claim: the sum is accumulated in real arithmetic and the mean of the
  normalised output is 0. The code on \<open>[1/2, 1/2]\<close>: the \<^verbatim>\<open>int\<close> accumulator stays 0, nothing
  is subtracted, and the mean of the output is \<open>1/2\<close>.
\<close>

theorem normalize_truncates_sum:
  "normalize_vec [1 / 2, 1 / 2] = [1 / 2, 1 / 2]
   \<and> sum_list (normalize_vec [1 / 2, 1 / 2]) / 2 = 1 / 2"
  by (simp add: normalize_vec_def double_round_half to_int_def)


text \<open>
  Beyond the range of \<^verbatim>\<open>int\<close>: on \<open>[3000000000]\<close> the accumulator becomes \<^verbatim>\<open>INT_MIN\<close> and
  the mean \<open>- 2147483648\<close>.
\<close>

lemma normalize_vec_beyond_int: "normalize_vec [3000000000] = [5147483648]"
proof -
  have "double_round 3000000000 = 3000000000"
    by (subst double_round_binade [of 31]) (simp_all add: half_even_def power_int_minus field_simps)
  then show ?thesis
    by (simp add: normalize_vec_def to_int_def)
qed

subsection \<open>Peak detection\<close>

lemma find_first_bounds:
  "find_first xs v i = Some k \<Longrightarrow> i \<le> k \<and> k < i + length xs"
  by (induction xs arbitrary: i) (fastforce split: if_splits)+

lemma detectPeak_range: "- 1 \<le> detectPeak data \<and> detectPeak data < int (length data)"
  by (auto simp: detectPeak_def split: option.splits dest: find_first_bounds)


lemma DBL_MIN_pos: "0 < DBL_MIN"
  by (simp add: DBL_MIN_def)

lemma DBL_MIN_le_1: "DBL_MIN \<le> 1"
  by (simp add: DBL_MIN_def)

lemma detectPeak_examples:
  "detectPeak [2, - 5, 5, 1] = 2" "detectPeak [2, - 5, - 5, 1] = 1"
  using DBL_MIN_pos DBL_MIN_le_1 by (simp_all add: detectPeak_def peak_max_def)


text \<open>
  Where some element is at least \<^verbatim>\<open>DBL_MIN\<close> in absolute value, the seed does not show and
  the source finds the peak that the specification describes.
\<close>

lemma foldl_max_abs: "0 \<le> a \<Longrightarrow> foldl (\<lambda>m x. max m \<bar>x\<bar>) a y = max a (abs_max y)"
proof (induction y arbitrary: a)
  case Nil
  then show ?case by (simp add: abs_max_def)
next
  case (Cons x xs)
  have "foldl (\<lambda>m x. max m \<bar>x\<bar>) a (x # xs) = max (max a \<bar>x\<bar>) (abs_max xs)"
    using Cons.prems Cons.IH [of "max a \<bar>x\<bar>"] by simp
  moreover have "abs_max (x # xs) = max \<bar>x\<bar> (abs_max xs)"
    using Cons.IH [of "\<bar>x\<bar>"] by (simp add: abs_max_def)
  ultimately show ?case
    by (simp add: max.assoc)
qed

lemma peak_max_eq: "peak_max data = max DBL_MIN (abs_max data)"
  using DBL_MIN_pos by (simp add: peak_max_def foldl_max_abs)

lemma abs_max_ge: "x \<in> set y \<Longrightarrow> \<bar>x\<bar> \<le> abs_max y"
proof (induction y)
  case Nil
  then show ?case by simp
next
  case (Cons z zs)
  have "abs_max (z # zs) = max \<bar>z\<bar> (abs_max zs)"
    using foldl_max_abs [of "\<bar>z\<bar>" zs] by (simp add: abs_max_def)
  with Cons show ?case by auto
qed

lemma detectPeak_agrees:
  assumes "x \<in> set data" "DBL_MIN \<le> \<bar>x\<bar>"
  shows "detectPeak data = detectPeak_spec data"
proof -
  from assms abs_max_ge [of x data] have "DBL_MIN \<le> abs_max data"
    by simp
  then have "peak_max data = abs_max data"
    by (simp add: peak_max_eq)
  then show ?thesis
    unfolding detectPeak_def detectPeak_spec_def by (simp only:)
qed

lemma detectPeak_spec_examples:
  "detectPeak_spec [2, - 5, 5, 1] = 2" "detectPeak_spec [2, - 5, - 5, 1] = 1"
  by (simp_all add: detectPeak_spec_def abs_max_def)

text \<open>
  Claim C3. The claim: \<open>m\<close> is the maximum absolute value of the range, and the result is
  the first index holding \<open>m\<close>, or else the first holding \<open>- m\<close>. The code on \<open>[0, 0]\<close>, where
  that maximum is 0 and index 0 holds it: the running maximum starts at \<^verbatim>\<open>DBL_MIN\<close>, which
  is positive, no element equals it or its negation, and the result is \<open>- 1\<close>.
\<close>

theorem detectPeak_silence:
  "detectPeak [0, 0] = - 1 \<and> detectPeak_spec [0, 0] = 0"
  using DBL_MIN_pos by (simp add: detectPeak_def peak_max_def detectPeak_spec_def abs_max_def)

subsection \<open>The composite envelope\<close>

text \<open>
  Level 0 is downsampled with pace 8, so a level-0 detail that is not empty takes
  \<^verbatim>\<open>undersample\<close> out of bounds. Where a composite envelope is produced it is empty.
\<close>

lemma abs_vec_length: "length (abs_vec data) = length data"
  by (simp add: abs_vec_def)

lemma normalize_vec_length: "length (normalize_vec data) = length data"
  by (simp add: normalize_vec_def Let_def)

lemma foldl_update_length:
  "length (foldl (\<lambda>d i. d[i := f d i]) d xs) = length d"
  by (induction xs arbitrary: d) simp_all

lemma add_length: "add data plus' = Inr r \<Longrightarrow> length r = length data"
  by (auto simp: add_def foldl_update_length split: if_splits)

lemma envelope_loop_length:
  "0 < loop \<Longrightarrow> envelope_loop decomp loop remaining pace dCSum = Inr e
     \<Longrightarrow> length e = length dCSum"
proof (induction remaining arbitrary: loop pace dCSum)
  case 0
  then show ?case by simp
next
  case (Suc remaining)
  from Suc.prems have inside: "\<not> length decomp \<le> loop"
    by (auto split: if_splits)
  from Suc.prems inside obtain result where
    u: "undersample (snd (decomp ! loop)) pace = Inr result"
    by (cases "undersample (snd (decomp ! loop)) pace") simp_all
  let ?dC = "normalize_vec (abs_vec result)"
  from Suc.prems inside u obtain dCSum' where a: "add dCSum ?dC = Inr dCSum'"
    by (cases "add dCSum ?dC") (simp_all add: Let_def)
  from Suc.prems inside u a
  have r: "envelope_loop decomp (Suc loop) remaining (pace div 2) dCSum' = Inr e"
    by (simp add: Let_def)
  from Suc.IH [OF _ r] have "length e = length dCSum'"
    by simp
  with add_length [OF a] show ?case by simp
qed

lemma envelope_loop_level0:
  "envelope_loop decomp 0 4 8 dCSum =
     (if length decomp \<le> 0 then Inl OutOfBounds
      else if snd (decomp ! 0) \<noteq> [] then Inl OutOfBounds
      else envelope_loop decomp 1 3 4 [])"
  using envelope_loop.simps(2) [of decomp 0 3 8 dCSum]
  by (simp add: undersample_overflows undersample_Nil normalize_vec_def abs_vec_def)

lemma compositeEnvelope_overflows:
  "0 < length decomp \<Longrightarrow> snd (decomp ! 0) \<noteq> [] \<Longrightarrow> compositeEnvelope decomp = Inl OutOfBounds"
  by (simp add: compositeEnvelope_def envelope_loop_level0)

lemma compositeEnvelope_empty:
  assumes "compositeEnvelope decomp = Inr e"
  shows "e = [] \<and> snd (decomp ! 0) = []"
proof -
  from assms have ne: "0 < length decomp"
    by (auto simp: compositeEnvelope_def Let_def split: if_splits)
  with assms compositeEnvelope_overflows [of decomp] have d0: "snd (decomp ! 0) = []"
    by auto
  let ?loop = "envelope_loop decomp 1 3 4 []"
  from assms ne d0 obtain dCSum where l: "?loop = Inr dCSum"
    by (cases ?loop) (simp_all add: compositeEnvelope_def envelope_loop_level0)
  from assms ne d0 l
  have a: "add dCSum (normalize_vec (abs_vec (fst (decomp ! 3)))) = Inr e"
    by (simp add: compositeEnvelope_def envelope_loop_level0 split: if_splits)
  from envelope_loop_length [OF _ l] have "length dCSum = 0"
    by simp
  with add_length [OF a] d0 show ?thesis
    by simp
qed

text \<open>
  Claim C5. The claim: the composite envelope has length \<^verbatim>\<open>dCMinLength\<close>, that is
  \<open>level0DetailLength div 8 + 1\<close>. The code on a decomposition whose level-0 detail has 16
  samples: \<^verbatim>\<open>dCMinLength\<close> is 3, and at level 0 \<^verbatim>\<open>undersample\<close> stores past the end of its
  2-element result, so no composite envelope is produced. The code on a decomposition
  whose coefficient vectors are all empty, where every store is in bounds:
  \<^verbatim>\<open>dCMinLength\<close> is 1 and the composite envelope is empty, because \<^verbatim>\<open>dCSum = dC\<close> at level 0
  replaces the vector of \<^verbatim>\<open>dCMinLength\<close> zeros and \<^verbatim>\<open>add\<close> never changes a size.
\<close>

theorem compositeEnvelope_misses_dCMinLength:
  "compositeEnvelope
     [([1, 1, 1, 1, 1, 1, 1, 1, 1, 1, 1, 1, 1, 1, 1, 1], [1, 1, 1, 1, 1, 1, 1, 1, 1, 1, 1, 1, 1, 1, 1, 1]),
      ([1, 1, 1, 1, 1, 1, 1, 1], [1, 1, 1, 1, 1, 1, 1, 1]),
      ([1, 1, 1, 1], [1, 1, 1, 1]),
      ([5, 6], [1, 2])] = Inl OutOfBounds
   \<and> dCMinLength
     [([1, 1, 1, 1, 1, 1, 1, 1, 1, 1, 1, 1, 1, 1, 1, 1], [1, 1, 1, 1, 1, 1, 1, 1, 1, 1, 1, 1, 1, 1, 1, 1]),
      ([1, 1, 1, 1, 1, 1, 1, 1], [1, 1, 1, 1, 1, 1, 1, 1]),
      ([1, 1, 1, 1], [1, 1, 1, 1]),
      ([5, 6], [1, 2])] = 3
   \<and> compositeEnvelope [([], []), ([], []), ([], []), ([], [])] = Inr []
   \<and> dCMinLength [([], []), ([], []), ([], []), ([], [])] = 1"
proof -
  have "envelope_loop [([], []), ([], []), ([], []), ([], [])] 1 3 4 [] = Inr []"
    by (simp add: eval_nat_numeral undersample_Nil undersample_pace_1 normalize_vec_def abs_vec_def add_def)
  then show ?thesis
    by (simp add: compositeEnvelope_overflows compositeEnvelope_def envelope_loop_level0
        dCMinLength_def to_int_def normalize_vec_def abs_vec_def add_def)
qed

subsection \<open>The tempo of a window\<close>



lemma minIndex_440: "minIndex 440 = 14"
proof -
  have b: "double_round (1228254443828317 / 4503599627370496 * 440)
      = 8444249301319679 / 70368744177664"
    by (subst double_round_binade [of 6]) (simp_all add: half_even_def power_int_minus field_simps)
  have c: "double_round (8444249301319679 / 70368744177664 / 8)
      = 8444249301319679 / 562949953421312"
    by (subst double_round_binade [of 3]) (simp_all add: half_even_def power_int_minus field_simps)
  have "minIndex 440 = to_int (8444249301319679 / 562949953421312)"
    by (simp only: minIndex_def sixty_over_220 b c)
  also have "\<dots> = 14"
    by (simp add: to_int_def)
  finally show ?thesis .
qed


text \<open>
  Every value that \<^verbatim>\<open>computeWindowBpm\<close> returns without an access out of bounds: the
  level-0 detail and the composite envelope are empty, both lag bounds are 0,
  \<^verbatim>\<open>detectPeak\<close> returns \<open>- 1\<close> for the empty range, and the value is \<open>60 / (- 1)\<close> times an
  eighth of the sample rate.
\<close>

lemma detectPeak_Nil: "detectPeak [] = - 1"
  by (simp add: detectPeak_def)

lemma correlate_Nil: "correlate [] = []"
  using correlate_length [of "[]"] by simp

lemma bpmOfEnvelope_Nil:
  assumes "bpmOfEnvelope sampleRate [] = Inr b"
  shows "minIndex sampleRate = 0 \<and> maxIndex sampleRate = 0 \<and> b = - (15 / 2) * sampleRate"
proof -
  from assms have range: "\<not> (minIndex sampleRate < 0 \<or> maxIndex sampleRate < minIndex sampleRate
      \<or> 0 < maxIndex sampleRate)"
    by (auto simp: bpmOfEnvelope_def correlate_Nil Let_def split: if_splits)
  then have z: "minIndex sampleRate = 0" "maxIndex sampleRate = 0"
    by auto
  with assms show ?thesis
    by (simp add: bpmOfEnvelope_def correlate_Nil detectPeak_Nil Let_def)
qed

lemma computeWindowBpm_from_value:
  assumes "computeWindowBpm_from sampleRate decomp = Inr b"
  shows "compositeEnvelope decomp = Inr [] \<and> snd (decomp ! 0) = []
    \<and> minIndex sampleRate = 0 \<and> maxIndex sampleRate = 0 \<and> b = - (15 / 2) * sampleRate"
proof -
  from assms obtain e where c: "compositeEnvelope decomp = Inr e"
    by (cases "compositeEnvelope decomp") (simp_all add: computeWindowBpm_from_def)
  from compositeEnvelope_empty [OF c] have e: "e = []" and d0: "snd (decomp ! 0) = []"
    by simp_all
  from assms c e have "bpmOfEnvelope sampleRate [] = Inr b"
    by (simp add: computeWindowBpm_from_def)
  from bpmOfEnvelope_Nil [OF this] c e d0 show ?thesis
    by simp
qed


section \<open>Results about the decomposition and the median\<close>

lemma halvings_possible_iff:
  "0 < levels \<Longrightarrow> halvings_possible n levels \<longleftrightarrow> 2 ^ levels \<le> n"
proof (induction levels arbitrary: n)
  case 0
  then show ?case by simp
next
  case (Suc levels)
  have half: "2 ^ levels \<le> n div 2 \<longleftrightarrow> 2 * 2 ^ levels \<le> n"
    by (simp add: less_eq_div_iff_mult_less_eq mult.commute)
  show ?case
  proof (cases "levels = 0")
    case True
    then show ?thesis by (simp add: Suc_le_eq) arith
  next
    case False
    then have "halvings_possible (n div 2) levels \<longleftrightarrow> 2 ^ levels \<le> n div 2"
      using Suc.IH by simp
    moreover have "2 ^ levels \<le> n div 2 \<Longrightarrow> 0 < n div 2"
      by (rule less_le_trans [of 0 "2 ^ levels"]) simp_all
    ultimately show ?thesis
      using half by auto
  qed
qed

text \<open>
  Claim C7. A window whose length cannot be halved 4 times without reaching the empty
  sequence, that is a window of fewer than 16 samples, is not given a BPM value:
  processing it fails with \<open>InsufficientData\<close>, whatever the filter bank and the sample rate.
\<close>

theorem short_window_is_InsufficientData:
  "(\<not> halvings_possible (length data) 4 \<longleftrightarrow> length data < 16)
   \<and> (length data < 16 \<longrightarrow> computeWindowBpm bank sampleRate data = Inl InsufficientData)"
  by (auto simp: computeWindowBpm_def decompose_def halvings_possible_iff)

theorem short_window_is_InsufficientData_witness:
  "length [1, 2, 3 :: real] < 16
   \<and> \<not> halvings_possible (length [1, 2, 3 :: real]) 4
   \<and> (\<forall>bank sampleRate. computeWindowBpm bank sampleRate [1, 2, 3] = Inl InsufficientData)"
  using short_window_is_InsufficientData [of "[1, 2, 3]"] by simp

lemma sort_eq_Nil: "sort xs = [] \<longleftrightarrow> xs = []"
  by (metis length_0_conv length_sort)

text \<open>
  Claim C8. \<^verbatim>\<open>currentEstimate\<close> returns the median of the history: for an odd count the
  middle value of the sorted copy, for an even count the arithmetic mean of the two
  central values; the history \<open>[80,90,100]\<close> gives 90 and \<open>[80,90,100,110]\<close> gives 95.
\<close>

theorem currentEstimate_is_median:
  "(odd (length history) \<longrightarrow>
      currentEstimate history = Inr (sort history ! (length history div 2)))
   \<and> (even (length history) \<and> history \<noteq> [] \<longrightarrow>
      currentEstimate history
        = Inr ((sort history ! (length history div 2 - 1) + sort history ! (length history div 2)) / 2))
   \<and> currentEstimate [80, 90, 100] = Inr 90
   \<and> currentEstimate [80, 90, 100, 110] = Inr 95"
proof -
  have "currentEstimate [80, 90, 100] = Inr 90" "currentEstimate [80, 90, 100, 110] = Inr 95"
    by (simp_all add: currentEstimate_def)
  moreover have "odd (length history) \<Longrightarrow>
      currentEstimate history = Inr (sort history ! (length history div 2))"
    by (cases "history = []") (simp_all add: currentEstimate_def Let_def sort_eq_Nil)
  moreover have "even (length history) \<Longrightarrow> history \<noteq> [] \<Longrightarrow>
      currentEstimate history
        = Inr ((sort history ! (length history div 2 - 1) + sort history ! (length history div 2)) / 2)"
    by (simp add: currentEstimate_def Let_def sort_eq_Nil)
  ultimately show ?thesis by blast
qed

theorem currentEstimate_is_median_witness:
  "odd (length [100, 80, 90 :: real]) \<and> currentEstimate [100, 80, 90] = Inr 90
   \<and> even (length [110, 80, 100, 90 :: real]) \<and> [110, 80, 100, 90 :: real] \<noteq> []
   \<and> currentEstimate [110, 80, 100, 90] = Inr 95"
  using currentEstimate_is_median [of "[100, 80, 90]"] currentEstimate_is_median [of "[110, 80, 100, 90]"]
  by simp

section \<open>Results about \<^verbatim>\<open>audio_data\<close>\<close>

text \<open>
  Claim C9, as amended. The claim: a failure to open the device, to set the parameters or
  to prepare the interface reaches the caller as an error value and does not end the
  process. The constructor does the opposite by construction, with an \<^verbatim>\<open>exit(EXIT_FAILURE)\<close>
  after each of the three checks: every such failure ends the process with status
  \<^verbatim>\<open>EXIT_FAILURE\<close>, after a diagnostic on \<^verbatim>\<open>stderr\<close>, and nothing is returned.
\<close>

theorem audio_data_failure_exits:
  "open_err alsa < 0 \<or> hw_params_err alsa < 0 \<or> prepare_err alsa < 0 \<Longrightarrow>
   terminates_process (audio_data format0 alsa)
   \<and> (\<exists>d. audio_data format0 alsa = ProcessExit EXIT_FAILURE d)"
  by (auto simp: audio_data_def)

theorem audio_data_failure_exits_witness:
  "hw_params_err \<lparr>open_err = 0, hw_params_err = - 22, prepare_err = 0,
      got_format = SND_PCM_FORMAT_S16_LE, got_rate = 44100, got_frames = 256, got_channels = 2\<rparr> < 0
   \<and> terminates_process (audio_data (- 1) \<lparr>open_err = 0, hw_params_err = - 22, prepare_err = 0,
      got_format = SND_PCM_FORMAT_S16_LE, got_rate = 44100, got_frames = 256, got_channels = 2\<rparr>)
   \<and> (\<exists>d. audio_data (- 1) \<lparr>open_err = 0, hw_params_err = - 22, prepare_err = 0,
      got_format = SND_PCM_FORMAT_S16_LE, got_rate = 44100, got_frames = 256, got_channels = 2\<rparr>
     = ProcessExit EXIT_FAILURE d)"
  using audio_data_failure_exits [of "\<lparr>open_err = 0, hw_params_err = - 22, prepare_err = 0,
      got_format = SND_PCM_FORMAT_S16_LE, got_rate = 44100, got_frames = 256, got_channels = 2\<rparr>" "- 1"]
  by simp

text \<open>
  Claim C9 as stated fails when \<^verbatim>\<open>snd_pcm_open\<close> answers \<open>- 2\<close>: the outcome is the end of
  the process.
\<close>

theorem audio_data_open_failure_ends_process:
  "audio_data (- 1) \<lparr>open_err = - 2, hw_params_err = 0, prepare_err = 0,
      got_format = SND_PCM_FORMAT_S16_LE, got_rate = 44100, got_frames = 256, got_channels = 2\<rparr>
   = ProcessExit EXIT_FAILURE (ErrorOpeningStream (- 2))
   \<and> terminates_process (audio_data (- 1) \<lparr>open_err = - 2, hw_params_err = 0, prepare_err = 0,
      got_format = SND_PCM_FORMAT_S16_LE, got_rate = 44100, got_frames = 256, got_channels = 2\<rparr>)"
  by (simp add: audio_data_def)


end
